theory Spec2Isabelle
  imports Main
begin

section \<open>JavaScript strings and values\<close>

text \<open>
  Strings are character lists. A JavaScript value that may be \<^verbatim>\<open>undefined\<close> or
  \<^verbatim>\<open>null\<close> is an option; \<open>falsy\<close> is the test \<^verbatim>\<open>!v\<close> on such a string value
  (undefined, null and the empty string are falsy).
\<close>

definition falsy :: "string option \<Rightarrow> bool" where
  "falsy v = (case v of None \<Rightarrow> True | Some s \<Rightarrow> s = [])"

text \<open>\<^verbatim>\<open>s.split(c)\<close> for a one-character separator: every occurrence separates, so
  adjacent separators give empty segments and the result is never empty.\<close>

fun split_on :: "char \<Rightarrow> string \<Rightarrow> string list" where
  "split_on c [] = [[]]"
| "split_on c (x # xs) =
     (if x = c then [] # split_on c xs
      else (case split_on c xs of
              [] \<Rightarrow> [[x]]
            | seg # segs \<Rightarrow> (x # seg) # segs))"

text \<open>\<^verbatim>\<open>xs[i]\<close>: undefined out of range.\<close>

fun js_index :: "'a list \<Rightarrow> nat \<Rightarrow> 'a option" where
  "js_index [] i = None"
| "js_index (x # xs) 0 = Some x"
| "js_index (x # xs) (Suc i) = js_index xs i"

text \<open>\<^verbatim>\<open>xs.pop()\<close>, the value it returns: the last element, undefined on an empty array.\<close>

definition js_pop :: "'a list \<Rightarrow> 'a option" where
  "js_pop xs = (if xs = [] then None else Some (last xs))"

text \<open>\<^verbatim>\<open>v || ''\<close> on a string value.\<close>

definition or_empty :: "string option \<Rightarrow> string" where
  "or_empty v = (case v of None \<Rightarrow> [] | Some s \<Rightarrow> s)"

definition startsWith :: "string \<Rightarrow> string \<Rightarrow> bool" where
  "startsWith s p = (take (length p) s = p)"

fun js_includes :: "string \<Rightarrow> string \<Rightarrow> bool" where
  "js_includes [] p = (p = [])"
| "js_includes (x # xs) p = (startsWith (x # xs) p \<or> js_includes xs p)"

definition is_space :: "char \<Rightarrow> bool" where
  "is_space c = (c \<in> set [CHR '' '', CHR 0x09, CHR 0x0A, CHR 0x0B, CHR 0x0C, CHR 0x0D])"

text \<open>\<^verbatim>\<open>s.trim()\<close> (on the ASCII white space).\<close>

definition trim :: "string \<Rightarrow> string" where
  "trim s = rev (dropWhile is_space (rev (dropWhile is_space s)))"

section \<open>Process environment and external collaborators\<close>

text \<open>
  The identity claims a token carries, which is also \<^verbatim>\<open>req.user\<close>.
\<close>

record claims =
  id' :: string
  email :: string
  username :: string

text \<open>What \<^verbatim>\<open>jwt.verify\<close> does: it returns the decoded claims, throws a
  \<^verbatim>\<open>JsonWebTokenError\<close> (expired tokens included), or throws something else.\<close>

datatype verify_result = Decoded claims | JsonWebTokenError | OtherError

text \<open>The call sites whose callee is an external service: the blob backend, the metadata
  store and the password hash. The iterations of the upload loop are numbered.\<close>

datatype call =
    S3Upload nat | FileSave nat | S3DeleteObject
  | FileFindOne | FileFindByIdAndDelete | FileFind | FileCountDocuments
  | S3GetSignedUrl | UserFindOne | UserFindById | UserSave | BcryptCompare

text \<open>
  The environment of a request: the process environment variables, and the behaviour of
  the libraries and services the code calls, which the code does not define. \<open>throws\<close>
  says which external calls fail (reject or throw) during the request, for whatever
  reason: a validation error, a duplicate key, a cast error, an unreachable service.
  A request runs at a time \<open>now\<close>, in milliseconds. The token library reads the clock in
  whole seconds: \<open>jwt_sign\<close> takes the payload, the secret, the lifetime in seconds and the
  second of issue, and nothing else; \<open>jwt_verify\<close> the token, the secret and the second.
  \<open>uuidv4\<close> and \<open>new_ObjectId\<close> give the identifiers drawn in the iterations of the upload
  loop; \<open>parseInt\<close> gives \<open>None\<close> for \<^verbatim>\<open>NaN\<close>.
\<close>

record env =
  JWT_SECRET :: "string option"
  JWT_REFRESH_SECRET :: "string option"
  AWS_ACCESS_KEY_ID :: "string option"
  AWS_SECRET_ACCESS_KEY :: "string option"
  AWS_REGION :: "string option"
  AWS_S3_BUCKET :: "string option"
  jwt_sign :: "claims \<Rightarrow> string \<Rightarrow> nat \<Rightarrow> nat \<Rightarrow> string"
  jwt_verify :: "string \<Rightarrow> string \<Rightarrow> nat \<Rightarrow> verify_result"
  bcrypt_compare :: "string \<Rightarrow> string \<Rightarrow> bool"
  uuidv4 :: "nat \<Rightarrow> string"
  new_ObjectId :: "nat \<Rightarrow> string"
  s3_Location :: "string \<Rightarrow> string"
  s3_getSignedUrl :: "string \<Rightarrow> nat \<Rightarrow> string \<Rightarrow> string"
  parseInt :: "string \<Rightarrow> int option"
  throws :: "call \<Rightarrow> bool"

section \<open>The verification guard (authenticate)\<close>

datatype 'b outcome = Next claims | Respond nat 'b

definition authenticate :: "env \<Rightarrow> string option \<Rightarrow> nat \<Rightarrow> string outcome" where
  "authenticate e authHeader now =
     (let token = (case authHeader of
                     None \<Rightarrow> None
                   | Some h \<Rightarrow> if h = [] then Some [] else js_index (split_on CHR '' '' h) 1)
      in if falsy token then Respond 401 ''Access token required''
         else if falsy (JWT_SECRET e) then Respond 500 ''JWT secret not configured''
         else (case jwt_verify e (or_empty token) (or_empty (JWT_SECRET e)) (now div 1000) of
                 Decoded d \<Rightarrow> Next \<lparr>id' = id' d, email = email d, username = username d\<rparr>
               | JsonWebTokenError \<Rightarrow> Respond 403 ''Invalid or expired token''
               | OtherError \<Rightarrow> Respond 500 ''Authentication error''))"

section \<open>Blob keys\<close>

text \<open>\<^verbatim>\<open>folder.replace(/^\/+|\/+$/g, '')\<close>: the slashes at the start and at the end go.\<close>

definition strip_slashes :: "string \<Rightarrow> string" where
  "strip_slashes s =
     rev (dropWhile (\<lambda>c. c = CHR ''/'') (rev (dropWhile (\<lambda>c. c = CHR ''/'') s)))"

definition generateS3Key :: "string \<Rightarrow> string \<Rightarrow> string \<Rightarrow> string" where
  "generateS3Key uname folder filename =
     (let sanitizedFolder = strip_slashes folder;
          folderPath = (if sanitizedFolder \<noteq> [] then sanitizedFolder @ ''/'' else [])
      in ''users/'' @ uname @ ''/'' @ folderPath @ filename)"

definition fileExtension :: "string \<Rightarrow> string" where
  "fileExtension originalname = or_empty (js_pop (split_on CHR ''.'' originalname))"

definition uniqueFilename :: "string \<Rightarrow> string \<Rightarrow> string" where
  "uniqueFilename uuid originalname = uuid @ ''.'' @ fileExtension originalname"

definition getFileType :: "string \<Rightarrow> string" where
  "getFileType mimetype =
     (if startsWith mimetype ''image/'' then ''image''
      else if startsWith mimetype ''video/'' then ''video''
      else if startsWith mimetype ''audio/'' then ''audio''
      else if js_includes mimetype ''pdf'' \<or> js_includes mimetype ''document'' \<or> js_includes mimetype ''text''
        then ''document''
      else if js_includes mimetype ''zip'' \<or> js_includes mimetype ''rar'' \<or> js_includes mimetype ''tar''
        then ''archive''
      else ''other'')"

section \<open>The stores\<close>

record user_doc =
  user_id :: string
  user_username :: string
  user_email :: string
  user_password :: string
  user_refreshToken :: "string option"

text \<open>A file record. The fields but \<open>s3Key\<close> are what a query with
  \<^verbatim>\<open>select('-s3Key')\<close> returns, so they are the parent record.\<close>

record file_view =
  doc_id :: string
  filename :: string
  originalName :: string
  size' :: nat
  url :: string
  contentType :: string
  fileType :: string
  folder :: string
  userId :: string
  uploadTime :: nat
  createdAt :: nat
  updatedAt :: nat

record file_doc = file_view +
  s3Key :: string

text \<open>What a request leaves behind, in the order it happens.\<close>

datatype effect =
    ConsoleError string
  | S3Put string
  | S3Delete string
  | DbInsert file_doc
  | DbDelete string

text \<open>
  The world a request runs in: the two collections of the metadata store, the objects of
  the bucket by key, and the effects so far.
\<close>

record world =
  users :: "user_doc list"
  files :: "file_doc list"
  bucket :: "string \<rightharpoonup> string"
  effects :: "effect list"

definition console_error :: "string \<Rightarrow> world \<Rightarrow> world" where
  "console_error msg w = w\<lparr>effects := effects w @ [ConsoleError msg]\<rparr>"

definition User_findOne_email :: "user_doc list \<Rightarrow> string \<Rightarrow> user_doc option" where
  "User_findOne_email us em = find (\<lambda>u. user_email u = em) us"

definition User_findById :: "user_doc list \<Rightarrow> string \<Rightarrow> user_doc option" where
  "User_findById us i = find (\<lambda>u. user_id u = i) us"

text \<open>\<^verbatim>\<open>user.save()\<close> of a document that was read from the collection.\<close>

definition User_save :: "user_doc list \<Rightarrow> user_doc \<Rightarrow> user_doc list" where
  "User_save us user = map (\<lambda>u. if user_id u = user_id user then user else u) us"

section \<open>Requests and responses\<close>

record user_summary =
  sum_id :: string
  sum_username :: string
  sum_email :: string

record multer_file =
  originalname :: string
  mimetype :: string
  file_size :: nat
  buffer :: string

text \<open>An element of \<^verbatim>\<open>uploadedFiles\<close>.\<close>

record upload_item =
  item_id :: string
  item_filename :: string
  item_originalName :: string
  item_size :: nat
  item_contentType :: string
  item_fileType :: string
  item_folder :: string
  item_uploadTime :: nat

text \<open>A JavaScript number that is an integer, \<^verbatim>\<open>NaN\<close> or \<^verbatim>\<open>Infinity\<close>.\<close>

datatype jsnum = Num int | NaN | Infinity

record pagination =
  page :: jsnum
  limit :: jsnum
  totalFiles :: nat
  totalPages :: jsnum
  hasNext :: bool
  hasPrev :: bool

text \<open>The JSON bodies of the responses, one constructor for each shape.\<close>

datatype body =
    Message string
  | LoginBody string string string user_summary
  | RefreshBody string
  | UploadBody string "upload_item list"
  | ListBody "file_view list" pagination
  | ListErrorBody string "file_view list"
  | DownloadBody string string string string nat
  | DeleteBody string string
  | InfoBody file_view

type_synonym 'b response = "nat \<times> 'b"

section \<open>The token routes\<close>

definition login :: "env \<Rightarrow> world \<Rightarrow> nat \<Rightarrow> string option \<Rightarrow> string option \<Rightarrow> world \<times> body response" where
  "login e w now email_in password_in =
     (if falsy email_in \<or> falsy password_in
      then (w, 400, Message ''Email and password are required'')
      else if throws e UserFindOne
      then (console_error ''Login error:'' w, 500, Message ''Server error during login'')
      else (case User_findOne_email (users w) (or_empty email_in) of
              None \<Rightarrow> (w, 401, Message ''Invalid credentials'')
            | Some user \<Rightarrow>
                if throws e BcryptCompare
                then (console_error ''Login error:'' w, 500, Message ''Server error during login'')
                else if \<not> bcrypt_compare e (or_empty password_in) (user_password user)
                then (w, 401, Message ''Invalid credentials'')
                else if falsy (JWT_SECRET e) \<or> falsy (JWT_REFRESH_SECRET e)
                then (w, 500, Message ''JWT secrets not configured'')
                else
                  (let payload = \<lparr>id' = user_id user, email = user_email user,
                                   username = user_username user\<rparr>;
                       accessToken = jwt_sign e payload (or_empty (JWT_SECRET e)) 900 (now div 1000);
                       refreshToken =
                         jwt_sign e payload (or_empty (JWT_REFRESH_SECRET e)) 604800 (now div 1000)
                   in if throws e UserSave
                      then (console_error ''Login error:'' w, 500,
                            Message ''Server error during login'')
                      else (w\<lparr>users := User_save (users w)
                                        (user\<lparr>user_refreshToken := Some refreshToken\<rparr>)\<rparr>,
                            200,
                            LoginBody ''Login successful'' accessToken refreshToken
                              \<lparr>sum_id = user_id user, sum_username = user_username user,
                               sum_email = user_email user\<rparr>))))"

definition refresh :: "env \<Rightarrow> world \<Rightarrow> nat \<Rightarrow> string option \<Rightarrow> world \<times> body response" where
  "refresh e w now refreshToken_in =
     (if falsy refreshToken_in then (w, 400, Message ''Refresh token required'')
      else if falsy (JWT_REFRESH_SECRET e) \<or> falsy (JWT_SECRET e)
      then (w, 500, Message ''JWT secrets not configured'')
      else (case jwt_verify e (or_empty refreshToken_in) (or_empty (JWT_REFRESH_SECRET e))
                   (now div 1000) of
              Decoded decoded \<Rightarrow>
                if throws e UserFindById
                then (console_error ''Refresh token error:'' w, 403,
                      Message ''Invalid or expired refresh token'')
                else (case User_findById (users w) (id' decoded) of
                        None \<Rightarrow> (w, 403, Message ''Invalid refresh token'')
                      | Some user \<Rightarrow>
                          if user_refreshToken user \<noteq> refreshToken_in
                          then (w, 403, Message ''Invalid refresh token'')
                          else
                            (let payload = \<lparr>id' = user_id user, email = user_email user,
                                             username = user_username user\<rparr>
                             in (w, 200,
                                 RefreshBody (jwt_sign e payload (or_empty (JWT_SECRET e)) 900
                                                (now div 1000)))))
            | JsonWebTokenError \<Rightarrow>
                (console_error ''Refresh token error:'' w, 403,
                 Message ''Invalid or expired refresh token'')
            | OtherError \<Rightarrow>
                (console_error ''Refresh token error:'' w, 403,
                 Message ''Invalid or expired refresh token'')))"

section \<open>The file routes\<close>

definition validateAWSConfig :: "env \<Rightarrow> bool" where
  "validateAWSConfig e =
     (\<not> falsy (AWS_ACCESS_KEY_ID e) \<and> \<not> falsy (AWS_SECRET_ACCESS_KEY e) \<and>
      \<not> falsy (AWS_REGION e) \<and> \<not> falsy (AWS_S3_BUCKET e))"

text \<open>The decimal digits of a number, as a template literal prints it.\<close>

fun string_of_nat :: "nat \<Rightarrow> string" where
  "string_of_nat n =
     (if n < 10 then [''0123456789'' ! n]
      else string_of_nat (n div 10) @ [''0123456789'' ! (n mod 10)])"

declare string_of_nat.simps [simp del]

subsection \<open>Upload\<close>

text \<open>\<^verbatim>\<open>req.user.username || req.user.email || req.user.id\<close>.\<close>

definition owner_name :: "claims \<Rightarrow> string" where
  "owner_name u =
     (if username u \<noteq> [] then username u else if email u \<noteq> [] then email u else id' u)"

definition s3Key_of :: "env \<Rightarrow> claims \<Rightarrow> string \<Rightarrow> nat \<Rightarrow> multer_file \<Rightarrow> string" where
  "s3Key_of e u fld k file =
     generateS3Key (owner_name u) fld (uniqueFilename (uuidv4 e k) (originalname file))"

text \<open>
  \<^verbatim>\<open>new File({...})\<close> in iteration \<open>k\<close>, saved: the schema trims \<open>filename\<close>,
  \<open>originalName\<close> and \<open>folder\<close>, and gives \<open>_id\<close>, \<open>uploadTime\<close> and the time stamps.
\<close>

definition new_File :: "env \<Rightarrow> claims \<Rightarrow> string \<Rightarrow> nat \<Rightarrow> nat \<Rightarrow> multer_file \<Rightarrow> file_doc" where
  "new_File e u fld now k file =
     \<lparr>doc_id = new_ObjectId e k,
      filename = trim (uniqueFilename (uuidv4 e k) (originalname file)),
      originalName = trim (originalname file),
      size' = file_size file,
      url = s3_Location e (s3Key_of e u fld k file),
      contentType = mimetype file,
      fileType = getFileType (mimetype file),
      folder = trim fld,
      userId = id' u,
      uploadTime = now,
      createdAt = now,
      updatedAt = now,
      s3Key = s3Key_of e u fld k file\<rparr>"

definition item_of :: "file_doc \<Rightarrow> upload_item" where
  "item_of d =
     \<lparr>item_id = doc_id d, item_filename = filename d, item_originalName = originalName d,
      item_size = size' d, item_contentType = contentType d, item_fileType = fileType d,
      item_folder = folder d, item_uploadTime = uploadTime d\<rparr>"

text \<open>What the \<^verbatim>\<open>catch\<close> of the loop logs for a file.\<close>

definition upload_error_message :: "multer_file \<Rightarrow> string" where
  "upload_error_message file = ''Error uploading file '' @ originalname file @ '':''"

text \<open>
  The body of the loop with its \<^verbatim>\<open>try\<close>/\<^verbatim>\<open>catch\<close>, for the file \<open>file\<close> of iteration
  \<open>k\<close>: the blob is written, then the record is saved; either call may reject, for
  whatever reason (\<open>throws\<close>), and then the error is logged and nothing is pushed.
\<close>

definition upload_one ::
  "env \<Rightarrow> claims \<Rightarrow> string \<Rightarrow> nat \<Rightarrow> nat \<Rightarrow> multer_file \<Rightarrow> world \<Rightarrow> world \<times> upload_item option" where
  "upload_one e u fld now k file w =
     (let key = s3Key_of e u fld k file
      in if throws e (S3Upload k)
         then (console_error (upload_error_message file) w, None)
         else
           (let w1 = w\<lparr>bucket := (bucket w)(key \<mapsto> buffer file),
                          effects := effects w @ [S3Put key]\<rparr>;
                newFile = new_File e u fld now k file
            in if throws e (FileSave k)
               then (console_error (upload_error_message file) w1, None)
               else (w1\<lparr>files := files w1 @ [newFile],
                          effects := effects w1 @ [DbInsert newFile]\<rparr>,
                     Some (item_of newFile))))"

fun upload_loop ::
  "env \<Rightarrow> claims \<Rightarrow> string \<Rightarrow> nat \<Rightarrow> nat \<Rightarrow> multer_file list \<Rightarrow> world \<Rightarrow> upload_item list
     \<Rightarrow> world \<times> upload_item list" where
  "upload_loop e u fld now k [] w uploadedFiles = (w, uploadedFiles)"
| "upload_loop e u fld now k (file # rest) w uploadedFiles =
     (case upload_one e u fld now k file w of
        (w', None) \<Rightarrow> upload_loop e u fld now (Suc k) rest w' uploadedFiles
      | (w', Some item) \<Rightarrow> upload_loop e u fld now (Suc k) rest w' (uploadedFiles @ [item]))"

definition upload_handler ::
  "env \<Rightarrow> world \<Rightarrow> nat \<Rightarrow> claims option \<Rightarrow> string option \<Rightarrow> multer_file list
     \<Rightarrow> world \<times> body response" where
  "upload_handler e w now req_user folder_in files_in =
     (case req_user of
        None \<Rightarrow> (w, 401, Message ''User not authenticated'')
      | Some u \<Rightarrow>
          if \<not> validateAWSConfig e
          then (w, 500, Message ''AWS S3 configuration is incomplete'')
          else
            (let fld = (if falsy folder_in then ''/'' else or_empty folder_in)
             in if files_in = [] then (w, 400, Message ''No files uploaded'')
                else (case upload_loop e u fld now 0 files_in w [] of
                        (w', uploadedFiles) \<Rightarrow>
                          if length uploadedFiles = 0
                          then (w', 500, Message ''Failed to upload any files'')
                          else (w', 201,
                                UploadBody (''Successfully uploaded '' @
                                            string_of_nat (length uploadedFiles) @ '' file(s)'')
                                  uploadedFiles))))"

text \<open>
  For stating what a batch does: iteration \<open>k\<close> succeeds when neither of its two calls
  rejects; \<open>file_effects\<close> is what the iteration leaves behind in either case;
  \<open>console_errors\<close> are the logged messages of a trace; \<open>blob_before_meta\<close> says that
  each insertion of a record in a trace comes after a write of the record's blob key.
\<close>

definition file_ok :: "env \<Rightarrow> nat \<Rightarrow> bool" where
  "file_ok e k = (\<not> throws e (S3Upload k) \<and> \<not> throws e (FileSave k))"

definition file_effects :: "env \<Rightarrow> claims \<Rightarrow> string \<Rightarrow> nat \<Rightarrow> nat \<Rightarrow> multer_file \<Rightarrow> effect list" where
  "file_effects e u fld now k file =
     (if throws e (S3Upload k) then [ConsoleError (upload_error_message file)]
      else if throws e (FileSave k)
      then [S3Put (s3Key_of e u fld k file), ConsoleError (upload_error_message file)]
      else [S3Put (s3Key_of e u fld k file), DbInsert (new_File e u fld now k file)])"

definition console_errors :: "effect list \<Rightarrow> string list" where
  "console_errors es = [m. ConsoleError m \<leftarrow> es]"

definition blob_before_meta :: "effect list \<Rightarrow> bool" where
  "blob_before_meta tr =
     (\<forall>i < length tr. \<forall>d. tr ! i = DbInsert d \<longrightarrow> (\<exists>j < i. tr ! j = S3Put (s3Key d)))"

subsection \<open>Lookup, download link, delete\<close>

text \<open>\<^verbatim>\<open>File.findOne({ _id: id, userId: uid })\<close>.\<close>

definition File_findOne :: "file_doc list \<Rightarrow> string \<Rightarrow> string \<Rightarrow> file_doc option" where
  "File_findOne ds i uid = find (\<lambda>d. doc_id d = i \<and> userId d = uid) ds"

text \<open>\<^verbatim>\<open>File.findByIdAndDelete(id)\<close>: the first record with this \<open>_id\<close> goes.\<close>

fun File_findByIdAndDelete :: "file_doc list \<Rightarrow> string \<Rightarrow> file_doc list" where
  "File_findByIdAndDelete [] i = []"
| "File_findByIdAndDelete (d # ds) i =
     (if doc_id d = i then ds else d # File_findByIdAndDelete ds i)"

definition get_handler :: "env \<Rightarrow> world \<Rightarrow> claims option \<Rightarrow> string \<Rightarrow> world \<times> body response" where
  "get_handler e w req_user i =
     (case req_user of
        None \<Rightarrow> (w, 401, Message ''User not authenticated'')
      | Some u \<Rightarrow>
          if throws e FileFindOne
          then (console_error ''Get file info error:'' w, 500,
                Message ''Server error while fetching file info'')
          else (case File_findOne (files w) i (id' u) of
                  None \<Rightarrow> (w, 404, Message ''File not found'')
                | Some file \<Rightarrow> (w, 200, InfoBody (file_view.truncate file))))"

definition download_handler :: "env \<Rightarrow> world \<Rightarrow> claims option \<Rightarrow> string \<Rightarrow> world \<times> body response" where
  "download_handler e w req_user i =
     (case req_user of
        None \<Rightarrow> (w, 401, Message ''User not authenticated'')
      | Some u \<Rightarrow>
          if throws e FileFindOne
          then (console_error ''Download link error:'' w, 500,
                Message ''Server error while generating download link'')
          else (case File_findOne (files w) i (id' u) of
                  None \<Rightarrow> (w, 404, Message ''File not found'')
                | Some file \<Rightarrow>
                    if throws e S3GetSignedUrl
                    then (console_error ''Download link error:'' w, 500,
                          Message ''Server error while generating download link'')
                    else
                      (let signedUrl =
                             s3_getSignedUrl e (s3Key file) 3600
                               (''attachment; filename='' @ [CHR 0x22] @ originalName file @ [CHR 0x22])
                       in (w, 200,
                           DownloadBody signedUrl signedUrl signedUrl (originalName file) 3600))))"

definition delete_handler :: "env \<Rightarrow> world \<Rightarrow> claims option \<Rightarrow> string \<Rightarrow> world \<times> body response" where
  "delete_handler e w req_user i =
     (case req_user of
        None \<Rightarrow> (w, 401, Message ''User not authenticated'')
      | Some u \<Rightarrow>
          if throws e FileFindOne
          then (console_error ''Delete file error:'' w, 500,
                Message ''Server error while deleting file'')
          else (case File_findOne (files w) i (id' u) of
                  None \<Rightarrow> (w, 404, Message ''File not found'')
                | Some file \<Rightarrow>
                    (let w1 = (if throws e S3DeleteObject
                               then console_error ''S3 deletion error:'' w
                               else w\<lparr>bucket := (bucket w)(s3Key file := None),
                                      effects := effects w @ [S3Delete (s3Key file)]\<rparr>)
                     in if throws e FileFindByIdAndDelete
                        then (console_error ''Delete file error:'' w1, 500,
                              Message ''Server error while deleting file'')
                        else (w1\<lparr>files := File_findByIdAndDelete (files w1) (doc_id file),
                                   effects := effects w1 @ [DbDelete (doc_id file)]\<rparr>,
                              200,
                              DeleteBody ''File deleted successfully'' (originalName file)))))"

subsection \<open>List\<close>

record list_query =
  q_folder :: "string option"
  q_fileType :: "string option"
  q_page :: "string option"
  q_limit :: "string option"

text \<open>The filter object \<^verbatim>\<open>query\<close>: \<open>userId\<close> always, the other two keys when set.\<close>

record mongo_query =
  mq_userId :: string
  mq_folder :: "string option"
  mq_fileType :: "string option"

text \<open>\<^verbatim>\<open>v && typeof v === 'string' && v.trim() !== ''\<close>, giving the filter value.\<close>

definition filter_value :: "string option \<Rightarrow> string option" where
  "filter_value v = (if \<not> falsy v \<and> trim (or_empty v) \<noteq> [] then v else None)"

definition build_query :: "claims \<Rightarrow> list_query \<Rightarrow> mongo_query" where
  "build_query u q =
     \<lparr>mq_userId = id' u, mq_folder = filter_value (q_folder q),
      mq_fileType = filter_value (q_fileType q)\<rparr>"

definition matches :: "mongo_query \<Rightarrow> file_doc \<Rightarrow> bool" where
  "matches mq d =
     (userId d = mq_userId mq \<and>
      (case mq_folder mq of None \<Rightarrow> True | Some f \<Rightarrow> folder d = f) \<and>
      (case mq_fileType mq of None \<Rightarrow> True | Some t \<Rightarrow> fileType d = t))"

text \<open>
  The cursor of the store, \<^verbatim>\<open>.skip(s).limit(l)\<close> on the sorted matches: the store
  rejects a skip or a limit that is \<^verbatim>\<open>NaN\<close> and a negative skip; a limit of 0 is no
  limit and a negative limit counts as its absolute value.
\<close>

definition skip_limit :: "int option \<Rightarrow> int option \<Rightarrow> 'a list \<Rightarrow> 'a list option" where
  "skip_limit s l xs =
     (case (s, l) of
        (Some sk, Some lim) \<Rightarrow>
          if sk < 0 then None
          else Some (if lim = 0 then drop (nat sk) xs else take (nat \<bar>lim\<bar>) (drop (nat sk) xs))
      | _ \<Rightarrow> None)"

definition js_num :: "int option \<Rightarrow> jsnum" where
  "js_num v = (case v of None \<Rightarrow> NaN | Some n \<Rightarrow> Num n)"

text \<open>\<^verbatim>\<open>Math.ceil(totalFiles / limitNum)\<close>.\<close>

definition js_ceil_div :: "nat \<Rightarrow> int option \<Rightarrow> jsnum" where
  "js_ceil_div n l =
     (case l of
        None \<Rightarrow> NaN
      | Some lim \<Rightarrow>
          if lim = 0 then (if n = 0 then NaN else Infinity)
          else Num (- ((- int n) div lim)))"

fun js_less :: "jsnum \<Rightarrow> jsnum \<Rightarrow> bool" where
  "js_less (Num a) (Num b) = (a < b)"
| "js_less (Num a) Infinity = True"
| "js_less _ _ = False"

definition list_handler :: "env \<Rightarrow> world \<Rightarrow> claims option \<Rightarrow> list_query \<Rightarrow> world \<times> body response" where
  "list_handler e w req_user q =
     (case req_user of
        None \<Rightarrow> (w, 401, Message ''User not authenticated'')
      | Some u \<Rightarrow>
          (let query = build_query u q;
               pageNum = parseInt e (case q_page q of None \<Rightarrow> ''1'' | Some p \<Rightarrow> p);
               limitNum = parseInt e (case q_limit q of None \<Rightarrow> ''20'' | Some l \<Rightarrow> l);
               skip = (case (pageNum, limitNum) of
                         (Some p, Some l) \<Rightarrow> Some ((p - 1) * l)
                       | _ \<Rightarrow> None);
               found = sort_key (\<lambda>d. - int (uploadTime d)) (filter (matches query) (files w))
           in if throws e FileFind
              then (console_error ''Get files error:'' w, 500,
                    ListErrorBody ''Server error while fetching files'' [])
              else (case skip_limit skip limitNum found of
                      None \<Rightarrow> (console_error ''Get files error:'' w, 500,
                               ListErrorBody ''Server error while fetching files'' [])
                    | Some docs \<Rightarrow>
                        if throws e FileCountDocuments
                        then (console_error ''Get files error:'' w, 500,
                              ListErrorBody ''Server error while fetching files'' [])
                        else
                          (let total = length (filter (matches query) (files w));
                               pages = js_ceil_div total limitNum
                           in (w, 200,
                               ListBody (map file_view.truncate docs)
                                 \<lparr>page = js_num pageNum, limit = js_num limitNum,
                                  totalFiles = total, totalPages = pages,
                                  hasNext = js_less (js_num pageNum) pages,
                                  hasPrev = js_less (Num 1) (js_num pageNum)\<rparr>)))))"

text \<open>The records a list response carries.\<close>

definition body_files :: "body \<Rightarrow> file_view list" where
  "body_files b = (case b of ListBody vs p \<Rightarrow> vs | ListErrorBody m vs \<Rightarrow> vs | _ \<Rightarrow> [])"

section \<open>A sample environment\<close>

text \<open>
  A concrete environment to run the definitions in. Its tokens are readable: the secret,
  the three claims, the time of issue and the lifetime, separated by bars; like the
  library's, they are a function of the payload, the secret, the lifetime and the second of
  issue. Its password hash is the password behind a hash sign.
\<close>

definition toy_sign :: "claims \<Rightarrow> string \<Rightarrow> nat \<Rightarrow> nat \<Rightarrow> string" where
  "toy_sign p secret lifetime iat =
     secret @ ''|'' @ id' p @ ''|'' @ email p @ ''|'' @ username p @ ''|'' @
     string_of_nat iat @ ''|'' @ string_of_nat lifetime"

definition toy_verify :: "string \<Rightarrow> string \<Rightarrow> nat \<Rightarrow> verify_result" where
  "toy_verify tok secret t =
     (case split_on CHR ''|'' tok of
        [s, i, em, un, iat, lifetime] \<Rightarrow>
          if s = secret then Decoded \<lparr>id' = i, email = em, username = un\<rparr> else JsonWebTokenError
      | _ \<Rightarrow> JsonWebTokenError)"

definition demo_env :: env where
  "demo_env =
     \<lparr>JWT_SECRET = Some ''k1'', JWT_REFRESH_SECRET = Some ''k2'',
      AWS_ACCESS_KEY_ID = Some ''AK'', AWS_SECRET_ACCESS_KEY = Some ''SK'',
      AWS_REGION = Some ''eu'', AWS_S3_BUCKET = Some ''b'',
      jwt_sign = toy_sign, jwt_verify = toy_verify,
      bcrypt_compare = (\<lambda>pw h. h = ''#'' @ pw),
      uuidv4 = (\<lambda>k. ''id'' @ string_of_nat k),
      new_ObjectId = (\<lambda>k. ''oid'' @ string_of_nat k),
      s3_Location = (\<lambda>key. ''https://b/'' @ key),
      s3_getSignedUrl = (\<lambda>key ttl disp. ''https://b/'' @ key @ ''?sig''),
      parseInt = (\<lambda>s. if s = ''1'' then Some 1 else if s = ''20'' then Some 20 else None),
      throws = (\<lambda>c. c = S3Upload 1 \<or> c = S3DeleteObject)\<rparr>"

definition alice_doc :: user_doc where
  "alice_doc = \<lparr>user_id = ''u1'', user_username = ''alice'', user_email = ''a@x.com'',
                 user_password = ''#secret1'', user_refreshToken = None\<rparr>"

definition bob_doc :: user_doc where
  "bob_doc = \<lparr>user_id = ''u2'', user_username = ''bob'', user_email = ''b@x.com'',
               user_password = ''#hunter22'', user_refreshToken = None\<rparr>"

definition demo_world :: world where
  "demo_world = \<lparr>users = [alice_doc, bob_doc], files = [], bucket = Map.empty, effects = []\<rparr>"

text \<open>The sample environment with no failing call, and the sample world after a login of
  alice that stored the refresh token \<open>rt\<close>.\<close>

definition quiet_env :: env where
  "quiet_env = demo_env\<lparr>throws := (\<lambda>c. False)\<rparr>"

definition logged_in :: "string \<Rightarrow> world" where
  "logged_in rt = demo_world\<lparr>users := [alice_doc\<lparr>user_refreshToken := Some rt\<rparr>, bob_doc]\<rparr>"

text \<open>A caller, and a world with two files of hers and a file of another user.\<close>

definition alice :: claims where
  "alice = \<lparr>id' = ''u1'', email = ''a@x.com'', username = ''alice''\<rparr>"

definition doc_a :: file_doc where
  "doc_a = \<lparr>doc_id = ''f1'', filename = ''id7.txt'', originalName = ''notes.txt'', size' = 10,
            url = ''https://b/users/alice/id7.txt'', contentType = ''text/plain'',
            fileType = ''document'', folder = ''/'', userId = ''u1'', uploadTime = 50,
            createdAt = 50, updatedAt = 50, s3Key = ''users/alice/id7.txt''\<rparr>"

definition doc_b :: file_doc where
  "doc_b = \<lparr>doc_id = ''f2'', filename = ''id8.png'', originalName = ''cat.png'', size' = 20,
            url = ''https://b/users/bob/id8.png'', contentType = ''image/png'',
            fileType = ''image'', folder = ''/'', userId = ''u2'', uploadTime = 60,
            createdAt = 60, updatedAt = 60, s3Key = ''users/bob/id8.png''\<rparr>"

definition doc_c :: file_doc where
  "doc_c = \<lparr>doc_id = ''f3'', filename = ''id9.zip'', originalName = ''old.zip'', size' = 30,
            url = ''https://b/users/alice/id9.zip'', contentType = ''application/zip'',
            fileType = ''archive'', folder = ''/'', userId = ''u1'', uploadTime = 70,
            createdAt = 70, updatedAt = 70, s3Key = ''users/alice/id9.zip''\<rparr>"

definition files_world :: world where
  "files_world = demo_world\<lparr>files := [doc_a, doc_b, doc_c],
                   bucket := [''users/alice/id7.txt'' \<mapsto> ''0123456789'', ''users/bob/id8.png'' \<mapsto> ''PNG'',
                              ''users/alice/id9.zip'' \<mapsto> ''ZIP'']\<rparr>"

text \<open>A batch of three files; in the sample environment the blob write of the second fails.\<close>

definition demo_files :: "multer_file list" where
  "demo_files =
     [\<lparr>originalname = ''a.txt'', mimetype = ''text/plain'', file_size = 3, buffer = ''abc''\<rparr>,
      \<lparr>originalname = ''b.png'', mimetype = ''image/png'', file_size = 2, buffer = ''xy''\<rparr>,
      \<lparr>originalname = ''README'', mimetype = ''application/json'', file_size = 1, buffer = ''z''\<rparr>]"

section \<open>Properties\<close>

lemma split_on_not_Nil: "split_on c s \<noteq> []"
  by (induction s) (auto split: list.splits)

lemma split_on_no_sep: "c \<notin> set s \<Longrightarrow> split_on c s = [s]"
  by (induction s) auto

lemma split_on_first: "c \<notin> set a \<Longrightarrow> split_on c (a @ c # b) = a # split_on c b"
  by (induction a) auto

lemmas demo_defs = quiet_env_def demo_env_def demo_world_def alice_doc_def bob_doc_def logged_in_def
  toy_sign_def toy_verify_def string_of_nat.simps falsy_def or_empty_def
  User_findOne_email_def User_findById_def User_save_def Let_def

lemma takeWhile_replicate:
  "takeWhile (\<lambda>x. x = c) xs = replicate (length (takeWhile (\<lambda>x. x = c) xs)) c"
  by (induction xs) auto

text \<open>The sanitized folder is the folder without its leading and trailing slashes.\<close>

lemma strip_slashes_decomp:
  "\<exists>a b. fld = replicate a CHR ''/'' @ strip_slashes fld @ replicate b CHR ''/''"
proof -
  let ?P = "\<lambda>x. x = CHR ''/''"
  let ?m = "dropWhile ?P fld"
  have "rev ?m = takeWhile ?P (rev ?m) @ dropWhile ?P (rev ?m)" by simp
  then have "?m = rev (dropWhile ?P (rev ?m)) @ rev (takeWhile ?P (rev ?m))"
    by (metis rev_append rev_rev_ident)
  moreover have "rev (takeWhile ?P (rev ?m)) = replicate (length (takeWhile ?P (rev ?m))) CHR ''/''"
    by (metis takeWhile_replicate rev_replicate)
  moreover have "fld = takeWhile ?P fld @ ?m" by simp
  moreover have "takeWhile ?P fld = replicate (length (takeWhile ?P fld)) CHR ''/''"
    by (rule takeWhile_replicate)
  ultimately show ?thesis unfolding strip_slashes_def by metis
qed

lemma find_User_save:
  "find (\<lambda>u. user_id u = user_id user) us = Some u0 \<Longrightarrow>
   find (\<lambda>u. user_id u = user_id user) (User_save us user) = Some user"
  unfolding User_save_def by (induction us) (auto split: if_splits)

lemma find_Some_set: "find P xs = Some x \<Longrightarrow> x \<in> set xs \<and> P x"
  by (induction xs) (auto split: if_splits)

lemma find_by_id_of_member:
  "x \<in> set xs \<Longrightarrow> \<exists>y. find (\<lambda>u. user_id u = user_id x) xs = Some y"
  by (induction xs) auto

text \<open>What a successful login found and what it left in the store.\<close>

lemma login_success:
  assumes "login e w now em pw = (w', 200, LoginBody m at rt s)"
  shows "\<exists>user. User_findOne_email (users w) (or_empty em) = Some user \<and>
           sum_id s = user_id user \<and>
           rt = jwt_sign e \<lparr>id' = user_id user, email = user_email user, username = user_username user\<rparr>
                  (or_empty (JWT_REFRESH_SECRET e)) 604800 (now div 1000) \<and>
           w' = w\<lparr>users := User_save (users w) (user\<lparr>user_refreshToken := Some rt\<rparr>)\<rparr> \<and>
           \<not> falsy (JWT_SECRET e) \<and> \<not> falsy (JWT_REFRESH_SECRET e) \<and>
           User_findById (users w') (user_id user) = Some (user\<lparr>user_refreshToken := Some rt\<rparr>)"
proof -
  from assms obtain user where u: "User_findOne_email (users w) (or_empty em) = Some user"
    by (auto simp: login_def Let_def console_error_def split: if_splits option.splits)
  from assms u have rest: "sum_id s = user_id user"
    "rt = jwt_sign e \<lparr>id' = user_id user, email = user_email user, username = user_username user\<rparr>
                  (or_empty (JWT_REFRESH_SECRET e)) 604800 (now div 1000)"
    "w' = w\<lparr>users := User_save (users w) (user\<lparr>user_refreshToken := Some rt\<rparr>)\<rparr>"
    "\<not> falsy (JWT_SECRET e)" "\<not> falsy (JWT_REFRESH_SECRET e)"
    by (auto simp: login_def Let_def console_error_def split: if_splits)
  from u have "user \<in> set (users w)"
    unfolding User_findOne_email_def by (auto dest: find_Some_set)
  then obtain y where "find (\<lambda>x. user_id x = user_id user) (users w) = Some y"
    using find_by_id_of_member by blast
  then have "find (\<lambda>x. user_id x = user_id (user\<lparr>user_refreshToken := Some rt\<rparr>))
               (User_save (users w) (user\<lparr>user_refreshToken := Some rt\<rparr>))
             = Some (user\<lparr>user_refreshToken := Some rt\<rparr>)"
    by (intro find_User_save[where ?u0.0 = y]) simp
  then have "User_findById (users w') (user_id user) = Some (user\<lparr>user_refreshToken := Some rt\<rparr>)"
    using rest(3) by (simp add: User_findById_def)
  with u rest show ?thesis by blast
qed

lemma refresh_users_unchanged: "users (fst (refresh e w now tok_in)) = users w"
  by (auto simp: refresh_def Let_def console_error_def split: option.splits verify_result.splits)

lemma File_findOne_None:
  "File_findOne ds i uid = None \<longleftrightarrow> (\<forall>d \<in> set ds. doc_id d = i \<longrightarrow> userId d \<noteq> uid)"
  by (auto simp: File_findOne_def find_None_iff)

lemma File_findOne_Some:
  "File_findOne ds i uid = Some d \<Longrightarrow> d \<in> set ds \<and> doc_id d = i \<and> userId d = uid"
  unfolding File_findOne_def by (auto dest: find_Some_set)

lemma File_findByIdAndDelete_filter:
  "distinct (map doc_id ds) \<Longrightarrow>
   File_findByIdAndDelete ds i = filter (\<lambda>d. doc_id d \<noteq> i) ds"
proof (induction ds)
  case Nil
  then show ?case by simp
next
  case (Cons d ds)
  show ?case
  proof (cases "doc_id d = i")
    case True
    from Cons.prems have "doc_id d \<notin> doc_id ` set ds" by simp
    with True have "\<forall>x \<in> set ds. doc_id x \<noteq> i" by (metis image_eqI)
    then have "filter (\<lambda>x. doc_id x \<noteq> i) ds = ds" by (simp add: filter_id_conv)
    with True show ?thesis by simp
  next
    case False
    with Cons show ?thesis by simp
  qed
qed

lemma set_skip_limit: "skip_limit s l xs = Some ys \<Longrightarrow> set ys \<subseteq> set xs"
  by (auto simp: skip_limit_def split: option.splits if_splits
      dest: in_set_takeD in_set_dropD)

lemma list_handler_files:
  "v \<in> set (body_files (snd (snd (list_handler e w req_user q)))) \<Longrightarrow>
   \<exists>d \<in> set (files w). v = file_view.truncate d"
proof (cases req_user)
  case None
  assume "v \<in> set (body_files (snd (snd (list_handler e w req_user q))))"
  with None show ?thesis by (simp add: list_handler_def body_files_def)
next
  case (Some u)
  assume v: "v \<in> set (body_files (snd (snd (list_handler e w req_user q))))"
  let ?found = "sort_key (\<lambda>d. - int (uploadTime d)) (filter (matches (build_query u q)) (files w))"
  from v Some obtain s l docs where "skip_limit s l ?found = Some docs" "v \<in> file_view.truncate ` set docs"
    by (auto simp: list_handler_def body_files_def Let_def split: if_splits option.splits)
  moreover from this have "set docs \<subseteq> set (files w)"
    using set_skip_limit by fastforce
  ultimately show ?thesis by blast
qed

lemma demo_env_calls:
  "throws demo_env c = (c = S3Upload 1 \<or> c = S3DeleteObject)"
  "uuidv4 demo_env k = ''id'' @ string_of_nat k"
  "new_ObjectId demo_env k = ''oid'' @ string_of_nat k"
  "s3_Location demo_env key = ''https://b/'' @ key"
  by (simp_all add: demo_env_def)

lemma quiet_env_calls:
  "throws quiet_env c = False"
  "parseInt quiet_env ''1'' = Some 1"
  "parseInt quiet_env ''20'' = Some 20"
  by (simp_all add: quiet_env_def demo_env_def)

lemmas upload_defs = new_File_def item_of_def s3Key_of_def owner_name_def generateS3Key_def
  strip_slashes_def uniqueFilename_def fileExtension_def js_pop_def or_empty_def falsy_def
  getFileType_def startsWith_def trim_def is_space_def upload_error_message_def
  demo_env_calls string_of_nat.simps alice_def Let_def

lemma upload_loop_items:
  "snd (upload_loop e u fld now k fs w acc) =
     acc @ map item_of [new_File e u fld now j f. (j, f) \<leftarrow> enumerate k fs, file_ok e j]"
  by (induction fs arbitrary: k w acc)
     (auto simp: upload_one_def Let_def file_ok_def)

lemma upload_loop_files:
  "files (fst (upload_loop e u fld now k fs w acc)) =
     files w @ [new_File e u fld now j f. (j, f) \<leftarrow> enumerate k fs, file_ok e j]"
  by (induction fs arbitrary: k w acc)
     (auto simp: upload_one_def Let_def file_ok_def console_error_def)

lemma upload_loop_users:
  "users (fst (upload_loop e u fld now k fs w acc)) = users w"
  by (induction fs arbitrary: k w acc)
     (auto simp: upload_one_def Let_def console_error_def)

lemma upload_loop_effects:
  "effects (fst (upload_loop e u fld now k fs w acc)) =
     effects w @ concat (map (\<lambda>(j, f). file_effects e u fld now j f) (enumerate k fs))"
  by (induction fs arbitrary: k w acc)
     (auto simp: upload_one_def Let_def console_error_def file_effects_def upload_error_message_def)

lemma console_errors_file_effects:
  "console_errors (concat (map (\<lambda>(j, f). file_effects e u fld now j f) (enumerate k fs))) =
     map upload_error_message [f. (j, f) \<leftarrow> enumerate k fs, \<not> file_ok e j]"
  by (induction fs arbitrary: k)
     (auto simp: console_errors_def file_effects_def file_ok_def)

lemma upload_loop_bucket:
  "dom (bucket (fst (upload_loop e u fld now k fs w acc))) =
     dom (bucket w) \<union> {key. S3Put key \<in> set (concat (map (\<lambda>(j, f). file_effects e u fld now j f) (enumerate k fs)))}"
  by (induction fs arbitrary: k w acc)
     (auto simp: upload_one_def Let_def console_error_def file_effects_def)

lemma blob_before_meta_append:
  assumes a: "blob_before_meta a" and b: "blob_before_meta b"
  shows "blob_before_meta (a @ b)"
  unfolding blob_before_meta_def
proof (intro allI impI)
  fix i d
  assume i: "i < length (a @ b)" and at: "(a @ b) ! i = DbInsert d"
  show "\<exists>j < i. (a @ b) ! j = S3Put (s3Key d)"
  proof (cases "i < length a")
    case True
    with at have "a ! i = DbInsert d" by (simp add: nth_append)
    with a True obtain j where "j < i" "a ! j = S3Put (s3Key d)"
      unfolding blob_before_meta_def by blast
    with True have "j < i \<and> (a @ b) ! j = S3Put (s3Key d)" by (simp add: nth_append)
    then show ?thesis by blast
  next
    case False
    with i at have "i - length a < length b" "b ! (i - length a) = DbInsert d"
      by (auto simp: nth_append)
    with b obtain j where j: "j < i - length a" "b ! j = S3Put (s3Key d)"
      unfolding blob_before_meta_def by blast
    then have "length a + j < i \<and> (a @ b) ! (length a + j) = S3Put (s3Key d)"
      by (simp add: nth_append)
    then show ?thesis by blast
  qed
qed

lemma blob_before_meta_file_effects: "blob_before_meta (file_effects e u fld now k file)"
  by (auto simp: blob_before_meta_def file_effects_def new_File_def nth_Cons split: nat.splits)

lemma blob_before_meta_concat:
  "(\<forall>b \<in> set bs. blob_before_meta b) \<Longrightarrow> blob_before_meta (concat bs)"
proof (induction bs)
  case Nil
  show ?case by (simp add: blob_before_meta_def)
next
  case (Cons b bs)
  then show ?case by (simp add: blob_before_meta_append)
qed

lemma upload_trace_ordered:
  "blob_before_meta (concat (map (\<lambda>(j, f). file_effects e u fld now j f) (enumerate k fs)))"
  by (rule blob_before_meta_concat) (auto simp: blob_before_meta_file_effects)

lemma comprehension_filter:
  "concat (map (\<lambda>(j, f). if P j then [g j f] else []) xs) =
     map (\<lambda>(j, f). g j f) (filter (\<lambda>(j, f). P j) xs)"
  by (induction xs) auto

lemma comprehension_Nil:
  "concat (map (\<lambda>(j, f). if P j then [g j f] else []) (enumerate 0 fs)) = [] \<longleftrightarrow>
     (\<forall>j < length fs. \<not> P j)"
proof -
  have "concat (map (\<lambda>(j, f). if P j then [g j f] else []) (enumerate 0 fs)) = [] \<longleftrightarrow>
        (\<forall>p \<in> set (enumerate 0 fs). \<not> P (fst p))"
    by (auto simp: comprehension_filter filter_empty_conv)
  also have "\<dots> \<longleftrightarrow> (\<forall>j < length fs. \<not> P j)"
  proof
    assume all: "\<forall>p \<in> set (enumerate 0 fs). \<not> P (fst p)"
    show "\<forall>j < length fs. \<not> P j"
    proof (intro allI impI)
      fix j assume "j < length fs"
      then have "(j, fs ! j) \<in> set (enumerate 0 fs)" by (simp add: in_set_enumerate_eq)
      with all show "\<not> P j" by fastforce
    qed
  next
    assume "\<forall>j < length fs. \<not> P j"
    then show "\<forall>p \<in> set (enumerate 0 fs). \<not> P (fst p)"
      by (simp add: in_set_enumerate_eq)
  qed
  finally show ?thesis .
qed

lemma comprehension_lengths:
  "length (concat (map (\<lambda>(j, f). if P j then [g j f] else []) xs)) +
   length (concat (map (\<lambda>(j, f). if \<not> P j then [h j f] else []) xs)) = length xs"
  by (induction xs) auto

subsection \<open>The guard\<close>

text \<open>
  C10. The guard takes the second space-separated segment of the Authorization header as
  the token and never looks at the scheme word: a header made of any word without a space,
  a space and a token that verifies under the configured secret authenticates as the
  token's claims; a header without a space (a bare token too) and an absent header are
  answered 401 "Access token required", whatever the configuration, so this check comes
  before the one of the secret.
\<close>

theorem authenticate_second_segment:
  "(CHR '' '' \<notin> set scheme \<and> CHR '' '' \<notin> set tok \<and> tok \<noteq> [] \<and>
    JWT_SECRET e = Some secret \<and> secret \<noteq> [] \<and>
    jwt_verify e tok secret (now div 1000) = Decoded d
      \<longrightarrow> authenticate e (Some (scheme @ CHR '' '' # tok)) now = Next d) \<and>
   (CHR '' '' \<notin> set h \<longrightarrow> authenticate e (Some h) now = Respond 401 ''Access token required'') \<and>
   authenticate e None now = Respond 401 ''Access token required''"
  by (auto simp: authenticate_def falsy_def or_empty_def split_on_first split_on_no_sep
      split: list.splits)

theorem authenticate_second_segment_witness:
  "authenticate demo_env (Some ''Basic k1|u1|a@x.com|alice|100|900'') 5000
     = Next \<lparr>id' = ''u1'', email = ''a@x.com'', username = ''alice''\<rparr> \<and>
   authenticate (demo_env\<lparr>JWT_SECRET := None\<rparr>) (Some ''k1|u1|a@x.com|alice|100|900'') 5000
     = Respond 401 ''Access token required'' \<and>
   authenticate (demo_env\<lparr>JWT_SECRET := None\<rparr>) None 5000
     = Respond 401 ''Access token required''"
  using authenticate_second_segment [of "''Basic''" "''k1|u1|a@x.com|alice|100|900''" demo_env "''k1''" 5000
      "\<lparr>id' = ''u1'', email = ''a@x.com'', username = ''alice''\<rparr>"]
    authenticate_second_segment [of _ _ "demo_env\<lparr>JWT_SECRET := None\<rparr>" _ 5000 _
      "''k1|u1|a@x.com|alice|100|900''"]
  by (simp add: demo_env_def toy_verify_def)

subsection \<open>Blob keys and generated names\<close>

text \<open>
  The blob key is the owner's name space, the folder without its leading and trailing
  slashes (no segment when nothing is left) and the generated name.
\<close>

lemma generateS3Key_template:
  "generateS3Key un fld fn =
     ''users/'' @ un @ ''/'' @ (if strip_slashes fld = [] then fn else strip_slashes fld @ ''/'' @ fn)"
  by (simp add: generateS3Key_def Let_def)

lemma strip_ends:
  fixes P :: "'a \<Rightarrow> bool"
  assumes nonempty: "dropWhile P (rev (dropWhile P xs)) \<noteq> []"
  shows "\<not> P (hd (rev (dropWhile P (rev (dropWhile P xs))))) \<and>
         \<not> P (last (rev (dropWhile P (rev (dropWhile P xs)))))"
proof -
  define m where "m = dropWhile P xs"
  define t where "t = takeWhile P (rev m)"
  define r where "r = dropWhile P (rev m)"
  from nonempty have rne: "r \<noteq> []" by (simp add: r_def m_def)
  have "t @ r = rev m" unfolding t_def r_def by (rule takeWhile_dropWhile_id)
  then have "rev (t @ r) = rev (rev m)" by (rule arg_cong)
  then have m_eq: "m = rev r @ rev t" by simp
  with rne have mne: "m \<noteq> []" by simp
  from rne have "\<not> P (hd r)" unfolding r_def by (rule hd_dropWhile)
  with rne have l: "\<not> P (last (rev r))" by (simp add: last_rev)
  from mne have "\<not> P (hd m)" unfolding m_def by (rule hd_dropWhile)
  moreover from rne m_eq have "hd m = hd (rev r)" by simp
  ultimately have "\<not> P (hd (rev r))" by simp
  with l show ?thesis unfolding r_def m_def by simp
qed

lemma strip_slashes_ends:
  "strip_slashes fld \<noteq> [] \<Longrightarrow>
   hd (strip_slashes fld) \<noteq> CHR ''/'' \<and> last (strip_slashes fld) \<noteq> CHR ''/''"
  unfolding strip_slashes_def
  using strip_ends [of "\<lambda>c. c = CHR ''/''" fld] by simp

lemma split_on_length: "2 \<le> length (split_on c (a @ c # b))"
  by (induction a) (auto simp: split_on_not_Nil Suc_le_eq split: list.splits)

lemma last_split_on: "last (split_on c (a @ c # b)) = last (split_on c b)"
proof (induction a)
  case Nil
  show ?case by (simp add: split_on_not_Nil)
next
  case (Cons x a)
  show ?case
  proof (cases "x = c")
    case True
    with Cons show ?thesis by (simp add: split_on_not_Nil)
  next
    case False
    from split_on_length[of c a b] obtain seg s2 segs where
      "split_on c (a @ c # b) = seg # s2 # segs"
      by (cases "split_on c (a @ c # b)"; cases "tl (split_on c (a @ c # b))") auto
    with False Cons show ?thesis by simp
  qed
qed

text \<open>With a dot in the original name, the generated name ends in the part after the last dot.\<close>

lemma fileExtension_after_last_dot:
  "CHR ''.'' \<notin> set ext \<Longrightarrow> fileExtension (base @ ''.'' @ ext) = ext"
  by (simp add: fileExtension_def js_pop_def or_empty_def split_on_not_Nil last_split_on
      split_on_no_sep)

text \<open>
  C9. The generated filename is the random identifier, a dot and the last dot-separated
  segment of the original name. For an original name without a dot that segment is the
  whole name, not an extension: "README" becomes the identifier followed by ".README".
\<close>

theorem uniqueFilename_without_dot:
  "fileExtension ''README'' = ''README'' \<and>
   uniqueFilename (uuidv4 e k) ''README'' = uuidv4 e k @ ''.README''"
  by (simp add: uniqueFilename_def fileExtension_def js_pop_def or_empty_def)

subsection \<open>Login and refresh\<close>

text \<open>
  C7. A login with an unknown email and a login with a known email and a password that
  does not match its hash are answered alike: status 401 with the message "Invalid
  credentials", and the store is left as it was.
\<close>

theorem login_failure_indistinguishable:
  assumes "\<not> falsy em1" "\<not> falsy pw1" "\<not> falsy em2" "\<not> falsy pw2"
    and "\<not> throws e UserFindOne" "\<not> throws e BcryptCompare"
    and "User_findOne_email (users w1) (or_empty em1) = None"
    and "User_findOne_email (users w2) (or_empty em2) = Some user"
    and "\<not> bcrypt_compare e (or_empty pw2) (user_password user)"
  shows "login e w1 now1 em1 pw1 = (w1, 401, Message ''Invalid credentials'') \<and>
         login e w2 now2 em2 pw2 = (w2, 401, Message ''Invalid credentials'') \<and>
         snd (login e w1 now1 em1 pw1) = snd (login e w2 now2 em2 pw2)"
  using assms by (simp add: login_def)

theorem login_failure_indistinguishable_witness:
  "login quiet_env demo_world 5000 (Some ''nobody@x.com'') (Some ''secret1'')
     = (demo_world, 401, Message ''Invalid credentials'') \<and>
   login quiet_env demo_world 7000 (Some ''a@x.com'') (Some ''wrong'')
     = (demo_world, 401, Message ''Invalid credentials'')"
  using login_failure_indistinguishable [of "Some ''nobody@x.com''" "Some ''secret1''" "Some ''a@x.com''"
      "Some ''wrong''" quiet_env demo_world demo_world alice_doc 5000 7000]
  by (simp add: demo_defs)

text \<open>
  C6. A refresh whose token verifies under the refresh secret is answered 403 "Invalid
  refresh token" when the decoded user is not in the store or the stored refresh token is
  not the presented string; otherwise it is answered 200 with a newly signed access token
  and nothing else. In every case the store is left as it was: the refresh token is not
  rotated.
\<close>

theorem refresh_checks_stored_token:
  assumes "\<not> falsy tok_in"
    and "\<not> falsy (JWT_REFRESH_SECRET e)" "\<not> falsy (JWT_SECRET e)"
    and "jwt_verify e (or_empty tok_in) (or_empty (JWT_REFRESH_SECRET e)) (now div 1000) = Decoded d"
    and "\<not> throws e UserFindById"
  shows "(User_findById (users w) (id' d) = None \<longrightarrow>
            refresh e w now tok_in = (w, 403, Message ''Invalid refresh token'')) \<and>
         (\<forall>user. User_findById (users w) (id' d) = Some user \<and> user_refreshToken user \<noteq> tok_in \<longrightarrow>
            refresh e w now tok_in = (w, 403, Message ''Invalid refresh token'')) \<and>
         (\<forall>user. User_findById (users w) (id' d) = Some user \<and> user_refreshToken user = tok_in \<longrightarrow>
            refresh e w now tok_in =
              (w, 200,
               RefreshBody (jwt_sign e \<lparr>id' = user_id user, email = user_email user,
                                        username = user_username user\<rparr>
                              (or_empty (JWT_SECRET e)) 900 (now div 1000)))) \<and>
         fst (refresh e w now tok_in) = w"
  using assms by (auto simp: refresh_def Let_def split: option.splits)

theorem refresh_checks_stored_token_witness:
  "refresh quiet_env (logged_in ''k2|u1|a@x.com|alice|100|604800'') 200000
     (Some ''k2|u1|a@x.com|alice|100|604800'')
     = (logged_in ''k2|u1|a@x.com|alice|100|604800'', 200, RefreshBody ''k1|u1|a@x.com|alice|200|900'') \<and>
   refresh quiet_env (logged_in ''k2|u1|a@x.com|alice|107|604800'') 200000
     (Some ''k2|u1|a@x.com|alice|100|604800'')
     = (logged_in ''k2|u1|a@x.com|alice|107|604800'', 403, Message ''Invalid refresh token'') \<and>
   refresh quiet_env (logged_in ''k2|u1|a@x.com|alice|107|604800'') 200000
     (Some ''k2|u9|z@x.com|zoe|100|604800'')
     = (logged_in ''k2|u1|a@x.com|alice|107|604800'', 403, Message ''Invalid refresh token'')"
  using refresh_checks_stored_token [of "Some ''k2|u1|a@x.com|alice|100|604800''" quiet_env 200000
      "\<lparr>id' = ''u1'', email = ''a@x.com'', username = ''alice''\<rparr>"
      "logged_in ''k2|u1|a@x.com|alice|100|604800''"]
    refresh_checks_stored_token [of "Some ''k2|u1|a@x.com|alice|100|604800''" quiet_env 200000
      "\<lparr>id' = ''u1'', email = ''a@x.com'', username = ''alice''\<rparr>"
      "logged_in ''k2|u1|a@x.com|alice|107|604800''"]
    refresh_checks_stored_token [of "Some ''k2|u9|z@x.com|zoe|100|604800''" quiet_env 200000
      "\<lparr>id' = ''u9'', email = ''z@x.com'', username = ''zoe''\<rparr>"
      "logged_in ''k2|u1|a@x.com|alice|107|604800''"]
  by (simp add: demo_defs)

text \<open>
  C4. A successful login stores the refresh token it signed. After a second successful
  login of the same user that signed a different refresh token, the stored token is the
  second one, and a refresh presenting the first one is refused (400 or 403) and changes
  no user, at any time and whichever calls fail. The library's verification is taken to
  decode a token to the identity it was signed for.
\<close>

theorem second_login_invalidates_first:
  assumes L1: "login e w0 now1 em1 pw1 = (w1, 200, LoginBody m1 at1 rt1 s1)"
    and L2: "login e w1 now2 em2 pw2 = (w2, 200, LoginBody m2 at2 rt2 s2)"
    and same: "sum_id s2 = sum_id s1"
    and diff: "rt2 \<noteq> rt1"
    and dec: "\<forall>t d. jwt_verify e rt1 (or_empty (JWT_REFRESH_SECRET e)) t = Decoded d \<longrightarrow> id' d = sum_id s1"
  shows "(\<exists>u. User_findById (users w1) (sum_id s1) = Some u \<and> user_refreshToken u = Some rt1) \<and>
         (\<exists>u. User_findById (users w2) (sum_id s1) = Some u \<and> user_refreshToken u = Some rt2) \<and>
         (\<forall>th now3. fst (snd (refresh (e\<lparr>throws := th\<rparr>) w2 now3 (Some rt1))) \<in> {400, 403} \<and>
                     users (fst (refresh (e\<lparr>throws := th\<rparr>) w2 now3 (Some rt1))) = users w2)"
proof -
  from login_success[OF L1] obtain user1 where
    u1: "sum_id s1 = user_id user1"
      "User_findById (users w1) (user_id user1) = Some (user1\<lparr>user_refreshToken := Some rt1\<rparr>)"
      "\<not> falsy (JWT_SECRET e)" "\<not> falsy (JWT_REFRESH_SECRET e)"
    by blast
  from login_success[OF L2] obtain user2 where
    u2: "sum_id s2 = user_id user2"
      "User_findById (users w2) (user_id user2) = Some (user2\<lparr>user_refreshToken := Some rt2\<rparr>)"
    by blast
  have stored: "User_findById (users w2) (sum_id s1) = Some (user2\<lparr>user_refreshToken := Some rt2\<rparr>)"
    using u2 same by simp
  have fails: "fst (snd (refresh (e\<lparr>throws := th\<rparr>) w2 now3 (Some rt1))) \<in> {400, 403}" for th now3
  proof (cases "jwt_verify e rt1 (or_empty (JWT_REFRESH_SECRET e)) (now3 div 1000)")
    case (Decoded d)
    with dec have "id' d = sum_id s1" by blast
    with Decoded stored diff u1(3,4) show ?thesis
      by (simp add: refresh_def or_empty_def falsy_def)
  next
    case JsonWebTokenError
    with u1(3,4) show ?thesis by (simp add: refresh_def or_empty_def falsy_def)
  next
    case OtherError
    with u1(3,4) show ?thesis by (simp add: refresh_def or_empty_def falsy_def)
  qed
  from u1 stored fails show ?thesis
    by (simp add: refresh_users_unchanged)
qed

theorem second_login_invalidates_first_witness:
  "login quiet_env demo_world 100200 (Some ''a@x.com'') (Some ''secret1'')
     = (logged_in ''k2|u1|a@x.com|alice|100|604800'', 200,
        LoginBody ''Login successful'' ''k1|u1|a@x.com|alice|100|900'' ''k2|u1|a@x.com|alice|100|604800''
          \<lparr>sum_id = ''u1'', sum_username = ''alice'', sum_email = ''a@x.com''\<rparr>) \<and>
   login quiet_env (logged_in ''k2|u1|a@x.com|alice|100|604800'') 107000 (Some ''a@x.com'') (Some ''secret1'')
     = (logged_in ''k2|u1|a@x.com|alice|107|604800'', 200,
        LoginBody ''Login successful'' ''k1|u1|a@x.com|alice|107|900'' ''k2|u1|a@x.com|alice|107|604800''
          \<lparr>sum_id = ''u1'', sum_username = ''alice'', sum_email = ''a@x.com''\<rparr>) \<and>
   fst (snd (refresh quiet_env (logged_in ''k2|u1|a@x.com|alice|107|604800'') 200000
               (Some ''k2|u1|a@x.com|alice|100|604800''))) \<in> {400, 403}"
proof -
  have L1: "login quiet_env demo_world 100200 (Some ''a@x.com'') (Some ''secret1'')
     = (logged_in ''k2|u1|a@x.com|alice|100|604800'', 200,
        LoginBody ''Login successful'' ''k1|u1|a@x.com|alice|100|900'' ''k2|u1|a@x.com|alice|100|604800''
          \<lparr>sum_id = ''u1'', sum_username = ''alice'', sum_email = ''a@x.com''\<rparr>)"
    by (simp add: login_def demo_defs)
  have L2: "login quiet_env (logged_in ''k2|u1|a@x.com|alice|100|604800'') 107000 (Some ''a@x.com'') (Some ''secret1'')
     = (logged_in ''k2|u1|a@x.com|alice|107|604800'', 200,
        LoginBody ''Login successful'' ''k1|u1|a@x.com|alice|107|900'' ''k2|u1|a@x.com|alice|107|604800''
          \<lparr>sum_id = ''u1'', sum_username = ''alice'', sum_email = ''a@x.com''\<rparr>)"
    by (simp add: login_def demo_defs)
  have dec: "\<forall>t d. jwt_verify quiet_env ''k2|u1|a@x.com|alice|100|604800''
                 (or_empty (JWT_REFRESH_SECRET quiet_env)) t = Decoded d \<longrightarrow>
               id' d = sum_id \<lparr>sum_id = ''u1'', sum_username = ''alice'', sum_email = ''a@x.com''\<rparr>"
    by (auto simp: demo_defs)
  have same: "sum_id \<lparr>sum_id = ''u1'', sum_username = ''alice'', sum_email = ''a@x.com''\<rparr>
              = sum_id \<lparr>sum_id = ''u1'', sum_username = ''alice'', sum_email = ''a@x.com''\<rparr>"
    by simp
  have diff: "''k2|u1|a@x.com|alice|107|604800'' \<noteq> ''k2|u1|a@x.com|alice|100|604800''"
    by simp
  have quiet: "quiet_env\<lparr>throws := (\<lambda>c. False)\<rparr> = quiet_env"
    by (simp add: quiet_env_def)
  from second_login_invalidates_first [OF L1 L2 same diff dec]
  have "fst (snd (refresh (quiet_env\<lparr>throws := (\<lambda>c. False)\<rparr>)
                    (logged_in ''k2|u1|a@x.com|alice|107|604800'') 200000
                    (Some ''k2|u1|a@x.com|alice|100|604800''))) \<in> {400, 403}"
    by blast
  then have R: "fst (snd (refresh quiet_env (logged_in ''k2|u1|a@x.com|alice|107|604800'') 200000
                    (Some ''k2|u1|a@x.com|alice|100|604800''))) \<in> {400, 403}"
    by (simp only: quiet)
  from L1 L2 R show ?thesis by (intro conjI)
qed

text \<open>
  Two logins of one user in the same second sign the same refresh token, so the first
  login's token is still the stored one after the second login and a refresh presenting
  it is answered 200.
\<close>

theorem second_login_same_second:
  "login quiet_env demo_world 100200 (Some ''a@x.com'') (Some ''secret1'')
     = (logged_in ''k2|u1|a@x.com|alice|100|604800'', 200,
        LoginBody ''Login successful'' ''k1|u1|a@x.com|alice|100|900'' ''k2|u1|a@x.com|alice|100|604800''
          \<lparr>sum_id = ''u1'', sum_username = ''alice'', sum_email = ''a@x.com''\<rparr>) \<and>
   login quiet_env (logged_in ''k2|u1|a@x.com|alice|100|604800'') 100900 (Some ''a@x.com'') (Some ''secret1'')
     = (logged_in ''k2|u1|a@x.com|alice|100|604800'', 200,
        LoginBody ''Login successful'' ''k1|u1|a@x.com|alice|100|900'' ''k2|u1|a@x.com|alice|100|604800''
          \<lparr>sum_id = ''u1'', sum_username = ''alice'', sum_email = ''a@x.com''\<rparr>) \<and>
   refresh quiet_env (logged_in ''k2|u1|a@x.com|alice|100|604800'') 200000
               (Some ''k2|u1|a@x.com|alice|100|604800'')
     = (logged_in ''k2|u1|a@x.com|alice|100|604800'', 200, RefreshBody ''k1|u1|a@x.com|alice|200|900'')"
proof (intro conjI)
  show "login quiet_env demo_world 100200 (Some ''a@x.com'') (Some ''secret1'')
     = (logged_in ''k2|u1|a@x.com|alice|100|604800'', 200,
        LoginBody ''Login successful'' ''k1|u1|a@x.com|alice|100|900'' ''k2|u1|a@x.com|alice|100|604800''
          \<lparr>sum_id = ''u1'', sum_username = ''alice'', sum_email = ''a@x.com''\<rparr>)"
    by (simp add: login_def demo_defs)
  show "login quiet_env (logged_in ''k2|u1|a@x.com|alice|100|604800'') 100900 (Some ''a@x.com'') (Some ''secret1'')
     = (logged_in ''k2|u1|a@x.com|alice|100|604800'', 200,
        LoginBody ''Login successful'' ''k1|u1|a@x.com|alice|100|900'' ''k2|u1|a@x.com|alice|100|604800''
          \<lparr>sum_id = ''u1'', sum_username = ''alice'', sum_email = ''a@x.com''\<rparr>)"
    by (simp add: login_def demo_defs)
  show "refresh quiet_env (logged_in ''k2|u1|a@x.com|alice|100|604800'') 200000
               (Some ''k2|u1|a@x.com|alice|100|604800'')
     = (logged_in ''k2|u1|a@x.com|alice|100|604800'', 200, RefreshBody ''k1|u1|a@x.com|alice|200|900'')"
    by (simp add: refresh_def demo_defs)
qed

subsection \<open>Records of other owners\<close>

text \<open>
  C3. The lookups conjoin the record id with the caller's id. When every record with the
  requested id belongs to another user, get, download link and delete answer exactly as
  they do in a store with no record of that id: 404 "File not found" when the lookup
  itself does not throw, with the world untouched (no record returned, nothing deleted,
  no other status).
\<close>

theorem foreign_record_not_found:
  assumes foreign: "\<forall>d \<in> set (files w). doc_id d = i \<longrightarrow> userId d \<noteq> id' u"
    and absent: "\<forall>d \<in> set (files w0). doc_id d \<noteq> i"
  shows "snd (get_handler e w (Some u) i) = snd (get_handler e w0 (Some u) i) \<and>
         snd (download_handler e w (Some u) i) = snd (download_handler e w0 (Some u) i) \<and>
         snd (delete_handler e w (Some u) i) = snd (delete_handler e w0 (Some u) i) \<and>
         (\<not> throws e FileFindOne \<longrightarrow>
            get_handler e w (Some u) i = (w, 404, Message ''File not found'') \<and>
            download_handler e w (Some u) i = (w, 404, Message ''File not found'') \<and>
            delete_handler e w (Some u) i = (w, 404, Message ''File not found''))"
proof -
  from foreign have "File_findOne (files w) i (id' u) = None"
    by (simp add: File_findOne_None)
  moreover from absent have "File_findOne (files w0) i (id' u) = None"
    by (simp add: File_findOne_None)
  ultimately show ?thesis
    by (simp add: get_handler_def download_handler_def delete_handler_def)
qed

theorem foreign_record_not_found_witness:
  "get_handler quiet_env files_world (Some alice) ''f2'' = (files_world, 404, Message ''File not found'') \<and>
   download_handler quiet_env files_world (Some alice) ''f2'' = (files_world, 404, Message ''File not found'') \<and>
   delete_handler quiet_env files_world (Some alice) ''f2'' = (files_world, 404, Message ''File not found'') \<and>
   snd (get_handler quiet_env files_world (Some alice) ''f2'') = snd (get_handler quiet_env demo_world (Some alice) ''f2'')"
proof -
  have foreign: "\<forall>d \<in> set (files files_world). doc_id d = ''f2'' \<longrightarrow> userId d \<noteq> id' alice"
    by (simp add: files_world_def doc_a_def doc_b_def doc_c_def alice_def)
  have absent: "\<forall>d \<in> set (files demo_world). doc_id d \<noteq> ''f2''"
    by (simp add: demo_world_def)
  have quiet: "\<not> throws quiet_env FileFindOne"
    by (simp add: quiet_env_def)
  from foreign_record_not_found [OF foreign absent, of quiet_env] quiet show ?thesis
    by blast
qed

subsection \<open>Listing\<close>

text \<open>
  C8. A list request with the folder (or the file type) given as the empty string gets
  the response of the same request without that parameter: the same records and the same
  pagination block, for every caller, page and limit.
\<close>

theorem list_empty_filter_is_no_filter:
  "list_handler e w req_user (q\<lparr>q_folder := Some ''''\<rparr>) = list_handler e w req_user (q\<lparr>q_folder := None\<rparr>) \<and>
   list_handler e w req_user (q\<lparr>q_fileType := Some ''''\<rparr>) = list_handler e w req_user (q\<lparr>q_fileType := None\<rparr>)"
  by (cases req_user) (simp_all add: list_handler_def build_query_def filter_value_def falsy_def)

theorem list_empty_filter_is_no_filter_witness:
  "list_handler quiet_env files_world (Some alice)
     \<lparr>q_folder = Some '''', q_fileType = None, q_page = None, q_limit = None\<rparr> =
   (files_world, 200,
    ListBody [file_view.truncate doc_c, file_view.truncate doc_a]
      \<lparr>page = Num 1, limit = Num 20, totalFiles = 2, totalPages = Num 1,
       hasNext = False, hasPrev = False\<rparr>)"
proof -
  have "list_handler quiet_env files_world (Some alice)
     \<lparr>q_folder = None, q_fileType = None, q_page = None, q_limit = None\<rparr> =
   (files_world, 200,
    ListBody [file_view.truncate doc_c, file_view.truncate doc_a]
      \<lparr>page = Num 1, limit = Num 20, totalFiles = 2, totalPages = Num 1,
       hasNext = False, hasPrev = False\<rparr>)"
    by (simp add: list_handler_def build_query_def filter_value_def falsy_def matches_def
        skip_limit_def js_num_def js_ceil_div_def quiet_env_def demo_env_def files_world_def
        demo_world_def doc_a_def doc_b_def doc_c_def alice_def Let_def)
  with list_empty_filter_is_no_filter [of quiet_env files_world "Some alice"
      "\<lparr>q_folder = None, q_fileType = None, q_page = None, q_limit = None\<rparr>"]
  show ?thesis by simp
qed

subsection \<open>Deleting\<close>

text \<open>
  C5. Deleting a record the caller owns, in a store whose record ids are distinct and
  whose lookup and delete do not throw: the answer is 200 with the record's original
  name and the record is gone, also when the deletion of the blob fails (then the failure
  is logged and the bucket is left as it is). Afterwards a get of that id by the owner is
  answered 404 (500 if that lookup throws), and no list response carries the record.
\<close>

theorem delete_despite_blob_failure:
  assumes found: "File_findOne (files w) i (id' u) = Some file"
    and ids: "distinct (map doc_id (files w))"
    and find_ok: "\<not> throws e FileFindOne"
    and delete_ok: "\<not> throws e FileFindByIdAndDelete"
  shows "snd (delete_handler e w (Some u) i) =
           (200, DeleteBody ''File deleted successfully'' (originalName file)) \<and>
         files (fst (delete_handler e w (Some u) i)) = filter (\<lambda>d. doc_id d \<noteq> i) (files w) \<and>
         (throws e S3DeleteObject \<longrightarrow>
            effects (fst (delete_handler e w (Some u) i)) =
              effects w @ [ConsoleError ''S3 deletion error:'', DbDelete i] \<and>
            bucket (fst (delete_handler e w (Some u) i)) = bucket w) \<and>
         (\<forall>e'. fst (snd (get_handler e' (fst (delete_handler e w (Some u) i)) (Some u) i)) \<in> {404, 500} \<and>
               (\<not> throws e' FileFindOne \<longrightarrow>
                  snd (get_handler e' (fst (delete_handler e w (Some u) i)) (Some u) i) =
                    (404, Message ''File not found''))) \<and>
         (\<forall>e' q. \<forall>v \<in> set (body_files (snd (snd (list_handler e' (fst (delete_handler e w (Some u) i)) (Some u) q)))).
               doc_id v \<noteq> i)"
proof -
  let ?w' = "fst (delete_handler e w (Some u) i)"
  from found have fid: "doc_id file = i" by (auto dest: File_findOne_Some)
  have resp: "snd (delete_handler e w (Some u) i) =
           (200, DeleteBody ''File deleted successfully'' (originalName file))"
    using found find_ok delete_ok by (simp add: delete_handler_def Let_def)
  have fs: "files ?w' = filter (\<lambda>d. doc_id d \<noteq> i) (files w)"
    using found find_ok delete_ok ids fid
    by (simp add: delete_handler_def Let_def console_error_def File_findByIdAndDelete_filter)
  have logged: "throws e S3DeleteObject \<longrightarrow>
            effects ?w' = effects w @ [ConsoleError ''S3 deletion error:'', DbDelete i] \<and>
            bucket ?w' = bucket w"
    using found find_ok delete_ok fid
    by (simp add: delete_handler_def Let_def console_error_def)
  have gone: "File_findOne (files ?w') i (id' u) = None"
    by (simp add: fs File_findOne_None)
  have get: "fst (snd (get_handler e' ?w' (Some u) i)) \<in> {404, 500} \<and>
               (\<not> throws e' FileFindOne \<longrightarrow>
                  snd (get_handler e' ?w' (Some u) i) = (404, Message ''File not found''))" for e'
    using gone by (simp add: get_handler_def)
  have list: "doc_id v \<noteq> i"
    if "v \<in> set (body_files (snd (snd (list_handler e' ?w' (Some u) q))))" for e' q v
  proof -
    from list_handler_files[OF that] obtain d where "d \<in> set (files ?w')" "v = file_view.truncate d"
      by blast
    then show ?thesis by (auto simp: fs file_view.truncate_def)
  qed
  from resp fs logged get list show ?thesis by blast
qed

theorem delete_despite_blob_failure_witness:
  "throws demo_env S3DeleteObject \<and>
   snd (delete_handler demo_env files_world (Some alice) ''f1'') =
     (200, DeleteBody ''File deleted successfully'' ''notes.txt'') \<and>
   files (fst (delete_handler demo_env files_world (Some alice) ''f1'')) = [doc_b, doc_c] \<and>
   effects (fst (delete_handler demo_env files_world (Some alice) ''f1'')) =
     [ConsoleError ''S3 deletion error:'', DbDelete ''f1''] \<and>
   bucket (fst (delete_handler demo_env files_world (Some alice) ''f1'')) = bucket files_world \<and>
   snd (get_handler quiet_env (fst (delete_handler demo_env files_world (Some alice) ''f1''))
          (Some alice) ''f1'') = (404, Message ''File not found'') \<and>
   body_files (snd (snd (list_handler quiet_env
       (fst (delete_handler demo_env files_world (Some alice) ''f1'')) (Some alice)
       \<lparr>q_folder = None, q_fileType = None, q_page = None, q_limit = None\<rparr>))) =
     [file_view.truncate doc_c] \<and>
   doc_id (file_view.truncate doc_c) \<noteq> ''f1''"
proof -
  let ?w' = "fst (delete_handler demo_env files_world (Some alice) ''f1'')"
  let ?q = "\<lparr>q_folder = None, q_fileType = None, q_page = None, q_limit = None\<rparr>"
  have found: "File_findOne (files files_world) ''f1'' (id' alice) = Some doc_a"
    by (simp add: File_findOne_def files_world_def doc_a_def doc_b_def doc_c_def alice_def)
  have ids: "distinct (map doc_id (files files_world))"
    by (simp add: files_world_def doc_a_def doc_b_def doc_c_def)
  have find_ok: "\<not> throws demo_env FileFindOne"
    and delete_ok: "\<not> throws demo_env FileFindByIdAndDelete"
    and blob_fails: "throws demo_env S3DeleteObject"
    by (simp_all add: demo_env_def)
  have quiet: "\<not> throws quiet_env FileFindOne"
    by (simp add: quiet_env_def)
  have name: "originalName doc_a = ''notes.txt''"
    by (simp add: doc_a_def)
  have rest: "filter (\<lambda>d. doc_id d \<noteq> ''f1'') (files files_world) = [doc_b, doc_c]"
    by (simp add: files_world_def doc_a_def doc_b_def doc_c_def)
  have log: "effects files_world = []"
    by (simp add: files_world_def demo_world_def)
  note deleted = delete_despite_blob_failure [OF found ids find_ok delete_ok]
  from deleted have after: "files ?w' = [doc_b, doc_c]"
    by (simp add: rest)
  have "body_files (snd (snd (list_handler quiet_env w (Some alice) ?q))) =
      [file_view.truncate doc_c]" if "files w = [doc_b, doc_c]" for w
    using that
    by (simp add: list_handler_def build_query_def filter_value_def falsy_def matches_def
        skip_limit_def body_files_def quiet_env_calls doc_b_def doc_c_def alice_def Let_def)
  from this [OF after]
  have listed: "body_files (snd (snd (list_handler quiet_env ?w' (Some alice) ?q))) =
      [file_view.truncate doc_c]" .
  from deleted have "\<forall>v \<in> set (body_files (snd (snd (list_handler quiet_env ?w' (Some alice) ?q)))).
      doc_id v \<noteq> ''f1''"
    by blast
  with listed have absent: "doc_id (file_view.truncate doc_c) \<noteq> ''f1''"
    by simp
  from deleted blob_fails quiet listed absent show ?thesis
    by (simp add: name rest log)
qed

subsection \<open>Uploading a batch\<close>

text \<open>
  C1. An authenticated upload of at least one file, with the storage configuration
  complete: the files are taken in order, and the files whose blob write and record save
  both went through are exactly the records added to the store and exactly the items of
  the response, in that order; each other file leaves one logged error and nothing else
  in the response; every file is one or the other. The answer is 500 "Failed to upload
  any files" when no file went through, that is when every file failed, and 201 with the
  created items otherwise.
\<close>

theorem upload_isolates_failures:
  assumes nonempty: "files_in \<noteq> []" and config: "validateAWSConfig e"
  shows
    "(let fld = (if falsy folder_in then ''/'' else or_empty folder_in);
          created = [new_File e u fld now j f. (j, f) \<leftarrow> enumerate 0 files_in, file_ok e j];
          failed = [f. (j, f) \<leftarrow> enumerate 0 files_in, \<not> file_ok e j];
          r = upload_handler e w now (Some u) folder_in files_in
      in snd r = (if created = [] then (500, Message ''Failed to upload any files'')
                  else (201, UploadBody (''Successfully uploaded '' @ string_of_nat (length created) @
                                         '' file(s)'') (map item_of created))) \<and>
         files (fst r) = files w @ created \<and>
         users (fst r) = users w \<and>
         console_errors (drop (length (effects w)) (effects (fst r))) = map upload_error_message failed \<and>
         length created + length failed = length files_in \<and>
         (created = [] \<longleftrightarrow> (\<forall>j < length files_in. \<not> file_ok e j)))"
proof -
  define fld where "fld = (if falsy folder_in then ''/'' else or_empty folder_in)"
  define created where
    "created = [new_File e u fld now j f. (j, f) \<leftarrow> enumerate 0 files_in, file_ok e j]"
  define failed where "failed = [f. (j, f) \<leftarrow> enumerate 0 files_in, \<not> file_ok e j]"
  define r where "r = upload_handler e w now (Some u) folder_in files_in"
  define l where "l = upload_loop e u fld now 0 files_in w []"
  have items: "snd l = map item_of created"
    unfolding l_def created_def by (simp add: upload_loop_items)
  have r_eq: "r = (fst l, if created = [] then (500, Message ''Failed to upload any files'')
                  else (201, UploadBody (''Successfully uploaded '' @ string_of_nat (length created) @
                                         '' file(s)'') (map item_of created)))"
    using nonempty config items unfolding r_def l_def upload_handler_def fld_def
    by (simp add: Let_def case_prod_unfold)
  have "files (fst l) = files w @ created"
    unfolding l_def created_def by (rule upload_loop_files)
  moreover have "users (fst l) = users w"
    unfolding l_def by (rule upload_loop_users)
  moreover have "console_errors (drop (length (effects w)) (effects (fst l))) = map upload_error_message failed"
    unfolding l_def failed_def
    by (simp add: upload_loop_effects console_errors_file_effects)
  moreover have "length created + length failed = length files_in"
    unfolding created_def failed_def using comprehension_lengths[where P = "file_ok e" and xs = "enumerate 0 files_in"]
    by simp
  moreover have "created = [] \<longleftrightarrow> (\<forall>j < length files_in. \<not> file_ok e j)"
    unfolding created_def by (rule comprehension_Nil)
  ultimately show ?thesis
    using r_eq unfolding Let_def fld_def[symmetric] created_def[symmetric] failed_def[symmetric] r_def[symmetric]
    by simp
qed

theorem upload_isolates_failures_witness:
  "snd (upload_handler demo_env demo_world 7000 (Some alice) (Some ''/docs/'') demo_files) =
     (201, UploadBody ''Successfully uploaded 2 file(s)''
        [\<lparr>item_id = ''oid0'', item_filename = ''id0.txt'', item_originalName = ''a.txt'',
          item_size = 3, item_contentType = ''text/plain'', item_fileType = ''document'',
          item_folder = ''/docs/'', item_uploadTime = 7000\<rparr>,
         \<lparr>item_id = ''oid2'', item_filename = ''id2.README'', item_originalName = ''README'',
          item_size = 1, item_contentType = ''application/json'', item_fileType = ''other'',
          item_folder = ''/docs/'', item_uploadTime = 7000\<rparr>]) \<and>
   map s3Key (files (fst (upload_handler demo_env demo_world 7000 (Some alice) (Some ''/docs/'') demo_files))) =
     [''users/alice/docs/id0.txt'', ''users/alice/docs/id2.README''] \<and>
   console_errors (effects (fst (upload_handler demo_env demo_world 7000 (Some alice) (Some ''/docs/'') demo_files))) =
     [''Error uploading file b.png:'']"
proof -
  have nonempty: "demo_files \<noteq> []"
    by (simp add: demo_files_def)
  have config: "validateAWSConfig demo_env"
    by (simp add: validateAWSConfig_def demo_env_def falsy_def)
  have start: "files demo_world = []" "effects demo_world = []"
    by (simp_all add: demo_world_def)
  from upload_isolates_failures [OF nonempty config, of "Some ''/docs/''" alice 7000 demo_world]
  show ?thesis
    by (simp add: start demo_files_def file_ok_def upload_defs)
qed

text \<open>
  C2. In the effects of any upload request, a record is inserted only after a blob write
  of that record's key earlier in the same request, and the object of that key is in the
  bucket when the request ends.
\<close>

theorem blob_written_before_record:
  "(let w' = fst (upload_handler e w now req_user folder_in files_in);
        tr = drop (length (effects w)) (effects w')
    in \<forall>i < length tr. \<forall>d. tr ! i = DbInsert d \<longrightarrow>
         (\<exists>j < i. tr ! j = S3Put (s3Key d)) \<and> bucket w' (s3Key d) \<noteq> None)"
proof -
  define w' where "w' = fst (upload_handler e w now req_user folder_in files_in)"
  define tr where "tr = drop (length (effects w)) (effects w')"
  have "blob_before_meta tr \<and> (\<forall>key. S3Put key \<in> set tr \<longrightarrow> key \<in> dom (bucket w'))"
  proof (cases "\<exists>u. req_user = Some u \<and> validateAWSConfig e \<and> files_in \<noteq> []")
    case True
    then obtain u where u: "req_user = Some u" "validateAWSConfig e" "files_in \<noteq> []" by blast
    define fld where "fld = (if falsy folder_in then ''/'' else or_empty folder_in)"
    from u have "w' = fst (upload_loop e u fld now 0 files_in w [])"
      unfolding w'_def upload_handler_def fld_def by (simp add: Let_def case_prod_unfold)
    then show ?thesis
      unfolding tr_def by (simp add: upload_loop_effects upload_trace_ordered upload_loop_bucket)
  next
    case False
    then have "w' = w"
      unfolding w'_def upload_handler_def by (auto simp: Let_def split: option.splits)
    then show ?thesis
      unfolding tr_def by (simp add: blob_before_meta_def)
  qed
  then have ordered: "blob_before_meta tr"
    and kept: "\<And>key. S3Put key \<in> set tr \<Longrightarrow> key \<in> dom (bucket w')"
    by blast+
  have "\<forall>i < length tr. \<forall>d. tr ! i = DbInsert d \<longrightarrow>
         (\<exists>j < i. tr ! j = S3Put (s3Key d)) \<and> bucket w' (s3Key d) \<noteq> None"
  proof (intro allI impI)
    fix i d
    assume i: "i < length tr" and at: "tr ! i = DbInsert d"
    with ordered obtain j where j: "j < i" "tr ! j = S3Put (s3Key d)"
      unfolding blob_before_meta_def by blast
    with i have "S3Put (s3Key d) \<in> set tr"
      by (metis nth_mem order_less_trans)
    then have "bucket w' (s3Key d) \<noteq> None"
      using kept by blast
    with j show "(\<exists>j < i. tr ! j = S3Put (s3Key d)) \<and> bucket w' (s3Key d) \<noteq> None"
      by blast
  qed
  then show ?thesis
    unfolding Let_def w'_def tr_def .
qed

theorem blob_written_before_record_witness:
  "effects (fst (upload_handler demo_env demo_world 7000 (Some alice) (Some ''/docs/'') demo_files)) ! 1 =
     DbInsert (new_File demo_env alice ''/docs/'' 7000 0 (demo_files ! 0)) \<and>
   (\<exists>j < 1. effects (fst (upload_handler demo_env demo_world 7000 (Some alice) (Some ''/docs/'') demo_files)) ! j =
     S3Put (s3Key (new_File demo_env alice ''/docs/'' 7000 0 (demo_files ! 0)))) \<and>
   bucket (fst (upload_handler demo_env demo_world 7000 (Some alice) (Some ''/docs/'') demo_files))
     (s3Key (new_File demo_env alice ''/docs/'' 7000 0 (demo_files ! 0))) \<noteq> None"
proof -
  let ?w' = "fst (upload_handler demo_env demo_world 7000 (Some alice) (Some ''/docs/'') demo_files)"
  let ?d = "new_File demo_env alice ''/docs/'' 7000 0 (demo_files ! 0)"
  have start: "effects demo_world = []"
    by (simp add: demo_world_def)
  have config: "validateAWSConfig demo_env"
    by (simp add: validateAWSConfig_def demo_env_def falsy_def)
  have tr: "effects ?w' =
      [S3Put (s3Key_of demo_env alice ''/docs/'' 0 (demo_files ! 0)), DbInsert ?d,
       ConsoleError ''Error uploading file b.png:'',
       S3Put (s3Key_of demo_env alice ''/docs/'' 2 (demo_files ! 2)),
       DbInsert (new_File demo_env alice ''/docs/'' 7000 2 (demo_files ! 2))]"
    by (simp add: upload_handler_def config upload_one_def console_error_def start demo_files_def
        upload_error_message_def demo_env_calls falsy_def or_empty_def Let_def numeral_2_eq_2)
  then have at: "1 < length (effects ?w')" "effects ?w' ! 1 = DbInsert ?d"
    by simp_all
  from blob_written_before_record [of demo_env demo_world 7000 "Some alice" "Some ''/docs/''" demo_files]
  have "\<forall>i < length (effects ?w'). \<forall>d. effects ?w' ! i = DbInsert d \<longrightarrow>
          (\<exists>j < i. effects ?w' ! j = S3Put (s3Key d)) \<and> bucket ?w' (s3Key d) \<noteq> None"
    by (simp add: Let_def start)
  with at show ?thesis by blast
qed

end
